theory Spec2Isabelle
  imports Main "HOL-Library.Sublist" "HOL-Library.AList"
begin

section \<open>JavaScript strings\<close>

text \<open>
  Strings are \<^typ>\<open>string\<close>, one \<^typ>\<open>char\<close> per code unit, so the model covers the
  strings whose code units are below 256. The two quote characters are written by
  their codes.
\<close>

abbreviation sq :: char where "sq \<equiv> CHR 0x27"
abbreviation dq :: char where "dq \<equiv> CHR 0x22"

definition is_quote :: "char \<Rightarrow> bool" where
  "is_quote c = (c = sq \<or> c = dq)"

text \<open>
  The white space of \<^verbatim>\<open>String.prototype.trim\<close> and of the class \<^verbatim>\<open>\s\<close>, below 256:
  tab, line feed, vertical tab, form feed, carriage return, space, no-break space.
\<close>

definition is_ws :: "char \<Rightarrow> bool" where
  "is_ws c = (c \<in> set [CHR 0x09, CHR 0x0A, CHR 0x0B, CHR 0x0C, CHR 0x0D, CHR 0x20, CHR 0xA0])"

definition trim :: "string \<Rightarrow> string" where
  "trim s = rev (dropWhile is_ws (rev (dropWhile is_ws s)))"

text \<open>\<^verbatim>\<open>s.split(c)\<close> for a one-character separator: the empty string gives one empty token.\<close>

fun split_on :: "char \<Rightarrow> string \<Rightarrow> string list" where
  "split_on c [] = [[]]"
| "split_on c (x # xs) =
     (if x = c then [] # split_on c xs
      else (case split_on c xs of
              [] \<Rightarrow> [[x]]
            | w # ws \<Rightarrow> (x # w) # ws))"

text \<open>
  \<^verbatim>\<open>s.replace('/', '-')\<close>: the pattern is a string, not a regular expression with the
  \<^verbatim>\<open>g\<close> flag, so only the first occurrence is replaced.
\<close>

fun replace_first :: "char \<Rightarrow> char \<Rightarrow> string \<Rightarrow> string" where
  "replace_first c d [] = []"
| "replace_first c d (x # xs) = (if x = c then d # xs else x # replace_first c d xs)"

text \<open>\<^verbatim>\<open>s.includes(sub)\<close>.\<close>

fun str_includes :: "string \<Rightarrow> string \<Rightarrow> bool" where
  "str_includes [] sub = (sub = [])"
| "str_includes (x # xs) sub = (prefix sub (x # xs) \<or> str_includes xs sub)"

text \<open>Decimal digits of a number, as a template literal prints it.\<close>

fun dec :: "nat \<Rightarrow> string" where
  "dec n = (if n < 10 then [char_of (48 + n)] else dec (n div 10) @ [char_of (48 + n mod 10)])"

declare dec.simps [simp del]

section \<open>Inline-handler parsing\<close>

text \<open>
  \<^verbatim>\<open>s.match(/NAME\(([^)]+)\)/)\<close>: the leftmost place where \<^verbatim>\<open>NAME(\<close> is followed by
  at least one character other than \<^verbatim>\<open>)\<close> and then by \<^verbatim>\<open>)\<close>. The class cannot cross a
  \<^verbatim>\<open>)\<close>, so at each start the capture is the whole run up to the first \<^verbatim>\<open>)\<close>.
  \<open>None\<close> is the \<^verbatim>\<open>null\<close> of a failed match.
\<close>

fun match_call :: "string \<Rightarrow> string \<Rightarrow> string option" where
  "match_call fname [] = None"
| "match_call fname (x # xs) =
     (if prefix (fname @ ''('') (x # xs) then
        (let rest = drop (length fname + 1) (x # xs);
             run = takeWhile (\<lambda>c. c \<noteq> CHR '')'') rest;
             after = dropWhile (\<lambda>c. c \<noteq> CHR '')'') rest
         in if run \<noteq> [] \<and> after \<noteq> [] then Some run else match_call fname xs)
      else match_call fname xs)"

text \<open>\<^verbatim>\<open>p.replace(/['"]/g, '')\<close>: every quote character of the token is removed.\<close>

definition strip_quotes :: "string \<Rightarrow> string" where
  "strip_quotes p = filter (\<lambda>c. \<not> is_quote c) p"

text \<open>\<^verbatim>\<open>args.split(',').map(p => p.trim().replace(/['"]/g, ''))\<close>\<close>

definition parse_params :: "string \<Rightarrow> string list" where
  "parse_params args = map (\<lambda>p. strip_quotes (trim p)) (split_on CHR '','' args)"

text \<open>
  \<^verbatim>\<open>${params[i]}\<close> in a template literal: an index out of range reads \<^verbatim>\<open>undefined\<close>,
  printed as the word.
\<close>

definition param_at :: "string list \<Rightarrow> nat \<Rightarrow> string" where
  "param_at ps i = (if i < length ps then ps ! i else ''undefined'')"

definition caseUrl :: "string list \<Rightarrow> string" where
  "caseUrl params =
     ''https://iapps.courts.state.ny.us/webcivil/FCASCaseInfo?parm='' @ param_at params 1
     @ ''&index='' @ param_at params 3 @ ''&county='' @ param_at params 2
     @ ''&motion='' @ param_at params 4 @ ''&docs='' @ param_at params 5
     @ ''&adate='' @ param_at params 6 @ ''&civilCaseId='' @ param_at params 7"

definition efiledUrl :: "string list \<Rightarrow> string" where
  "efiledUrl efiledParams =
     ''https://iapps.courts.state.ny.us/webcivil/FCASeFiledDocsDetail?county_code=''
     @ param_at efiledParams 1 @ ''&txtIndexNo='' @ param_at efiledParams 2
     @ ''&showMenu=no&isPreRji='' @ param_at efiledParams 3
     @ ''&civilCase='' @ param_at efiledParams 4"

text \<open>
  \<^verbatim>\<open>onclick.match(/openPDF\(['"]([^'"]+)['"]/)\<close>: the leftmost \<^verbatim>\<open>openPDF(\<close> followed by a
  quote character (either one), a non-empty run without quote characters, and a quote
  character (either one).
\<close>

fun match_openPDF :: "string \<Rightarrow> string option" where
  "match_openPDF [] = None"
| "match_openPDF (x # xs) =
     (if prefix ''openPDF('' (x # xs) then
        (case drop 8 (x # xs) of
           [] \<Rightarrow> match_openPDF xs
         | q # rest \<Rightarrow>
             (let run = takeWhile (\<lambda>c. \<not> is_quote c) rest;
                  after = dropWhile (\<lambda>c. \<not> is_quote c) rest
              in if is_quote q \<and> run \<noteq> [] \<and> after \<noteq> [] then Some run
                 else match_openPDF xs))
      else match_openPDF xs)"

section \<open>Paths\<close>

text \<open>
  \<^verbatim>\<open>path.join\<close> of Node on POSIX: the non-empty arguments are joined with \<^verbatim>\<open>/\<close> and the
  result is normalised. Normalisation drops empty and \<^verbatim>\<open>.\<close> segments, lets \<^verbatim>\<open>..\<close> remove
  the segment before it (above the root of an absolute path it is dropped; in a relative
  path it is kept), and keeps one trailing separator.
\<close>

fun normalize_segments :: "bool \<Rightarrow> string list \<Rightarrow> string list \<Rightarrow> string list" where
  "normalize_segments allowAboveRoot acc [] = rev acc"
| "normalize_segments allowAboveRoot acc (s # ss) =
     (if s = [] \<or> s = ''.'' then normalize_segments allowAboveRoot acc ss
      else if s = ''..'' then
        (case acc of
           [] \<Rightarrow> normalize_segments allowAboveRoot (if allowAboveRoot then [''..''] else []) ss
         | t # ts \<Rightarrow>
             if t = ''..'' then normalize_segments allowAboveRoot (if allowAboveRoot then ''..'' # acc else acc) ss
             else normalize_segments allowAboveRoot ts ss)
      else normalize_segments allowAboveRoot (s # acc) ss)"

fun join_with :: "string \<Rightarrow> string list \<Rightarrow> string" where
  "join_with sep [] = []"
| "join_with sep [s] = s"
| "join_with sep (s # t # ts) = s @ sep @ join_with sep (t # ts)"

definition path_normalize :: "string \<Rightarrow> string" where
  "path_normalize p =
     (if p = [] then ''.''
      else
        (let isAbsolute = (hd p = CHR ''/'');
             trailingSeparator = (last p = CHR ''/'');
             body = join_with ''/'' (normalize_segments (\<not> isAbsolute) [] (split_on CHR ''/'' p))
         in if body = [] then (if isAbsolute then ''/'' else if trailingSeparator then ''./'' else ''.'')
            else (if isAbsolute then ''/'' else []) @ body @ (if trailingSeparator then ''/'' else [])))"

definition path_join :: "string \<Rightarrow> string \<Rightarrow> string" where
  "path_join a b =
     (let joined = (if a = [] then b else if b = [] then a else a @ ''/'' @ b)
      in if joined = [] then ''.'' else path_normalize joined)"

definition DOWNLOAD_DIR :: string where
  "DOWNLOAD_DIR = ''/tmp/trex-pdfs''"

definition SEARCH_URL :: string where
  "SEARCH_URL = ''https://iapps.courts.state.ny.us/webcivil/FCASSearch''"

text \<open>\<^verbatim>\<open>path.join(DOWNLOAD_DIR, indexNumber.replace('/', '-'))\<close>\<close>

definition caseDir_of :: "string \<Rightarrow> string" where
  "caseDir_of indexNumber = path_join DOWNLOAD_DIR (replace_first CHR ''/'' CHR ''-'' indexNumber)"

text \<open>The agent identifier of \<^verbatim>\<open>updateDashboard\<close>: \<^verbatim>\<open>`scraper-${indexNumber.replace('/', '-')}`\<close>\<close>

definition agentId_of :: "string \<Rightarrow> string" where
  "agentId_of indexNumber = ''scraper-'' @ replace_first CHR ''/'' CHR ''-'' indexNumber"

text \<open>
  The parameters of an inline handler, as both call sites compute them:
  \<^verbatim>\<open>onclick.match(/NAME\(([^)]+)\)/)[1].split(',').map(p => p.trim().replace(/['"]/g, ''))\<close>.
  \<open>None\<close> is the \<^verbatim>\<open>TypeError\<close> of indexing the \<^verbatim>\<open>null\<close> of a failed match.
\<close>

definition handler_params :: "string \<Rightarrow> string \<Rightarrow> string list option" where
  "handler_params fname onclick =
     (case match_call fname onclick of
        None \<Rightarrow> None
      | Some args \<Rightarrow> Some (parse_params args))"

section \<open>Data model\<close>

datatype doc_type = Judgment | Notice

record document_record =
  name :: string
  dtype :: doc_type
  url :: string
  date :: string

record case_info =
  plaintiff :: "string option"
  defendant :: "string option"

text \<open>
  The result object. \<open>pdfs\<close> is an object keyed by document type: an association list in
  insertion order, where assigning to a key that is present replaces its value in place.
  \<open>None\<close> in \<open>hcaptchaSitekey\<close> is the absent property or \<^verbatim>\<open>null\<close>.
\<close>

record scrape_result =
  success :: bool
  indexNumber :: string
  county :: string
  caseDir :: string
  pdfs :: "(doc_type \<times> string) list"
  error :: "string option"
  hcaptchaDetected :: bool
  hcaptchaSitekey :: "string option"
  caseInfo :: "case_info option"
  documents :: "document_record list"

subsection \<open>The documents table\<close>

text \<open>
  What the in-page scan reads of the documents page: the rows of \<^verbatim>\<open>table tr\<close> in document
  order, each with its \<^verbatim>\<open>td\<close> cells; of a cell its text content and its first link, if any;
  of a link its text content and its \<^verbatim>\<open>onclick\<close> attribute, if any.
\<close>

record link =
  ltext :: string
  lonclick :: "string option"

record cell =
  ctext :: string
  clink :: "link option"

type_synonym row = "cell list"

definition JUDGMENT_NAME :: string where
  "JUDGMENT_NAME = ''JUDGMENT OF FORECLOSURE AND SALE''"

definition NOTICE_NAME :: string where
  "NOTICE_NAME = ''NOTICE OF SALE''"

text \<open>
  The body of the \<^verbatim>\<open>forEach\<close> over the rows: the record the row pushes, if it pushes one.
  \<^verbatim>\<open>link?.textContent?.trim() || ''\<close> and \<^verbatim>\<open>link?.getAttribute('onclick') || ''\<close> are the
  empty string when there is no link or no attribute; the empty handler is falsy.
\<close>

definition row_document :: "row \<Rightarrow> document_record option" where
  "row_document cells =
     (if length cells \<ge> 3 then
        (let lnk = clink (cells ! 2);
             docName = (case lnk of None \<Rightarrow> [] | Some l \<Rightarrow> trim (ltext l));
             onclick = (case lnk of None \<Rightarrow> []
                        | Some l \<Rightarrow> (case lonclick l of None \<Rightarrow> [] | Some h \<Rightarrow> h))
         in if (docName = JUDGMENT_NAME \<or> docName = NOTICE_NAME) \<and> onclick \<noteq> [] then
              (case match_openPDF onclick of
                 None \<Rightarrow> None
               | Some u \<Rightarrow>
                   Some \<lparr>name = docName,
                         dtype = (if str_includes docName ''JUDGMENT'' then Judgment else Notice),
                         url = u,
                         date = trim (ctext (cells ! 1))\<rparr>)
            else None)
      else None)"

text \<open>The scan: one record for each row that pushes one, in table order.\<close>

fun scan_rows :: "row list \<Rightarrow> document_record list" where
  "scan_rows [] = []"
| "scan_rows (r # rs) =
     (case row_document r of
        None \<Rightarrow> scan_rows rs
      | Some d \<Rightarrow> d # scan_rows rs)"

subsection \<open>Case information\<close>

text \<open>
  \<^verbatim>\<open>caseText.match(/LABEL[s]?[:\s]+([^\n]+)/i)\<close>. With the \<^verbatim>\<open>i\<close> flag an ASCII letter of the
  pattern matches itself in either case. The quantifiers are greedy and backtrack: the
  optional \<^verbatim>\<open>s\<close> is tried first; the separator run is taken whole and then shortened one
  character at a time until a character other than a line feed follows it; the capture
  runs to the next line feed. The match is the leftmost one.
\<close>

definition to_upper :: "char \<Rightarrow> char" where
  "to_upper c =
     (if of_char c \<ge> (97::nat) \<and> of_char c \<le> (122::nat) then char_of (of_char c - (32::nat)) else c)"

fun ci_prefix :: "string \<Rightarrow> string \<Rightarrow> bool" where
  "ci_prefix [] s = True"
| "ci_prefix (p # ps) [] = False"
| "ci_prefix (p # ps) (x # xs) = (to_upper p = to_upper x \<and> ci_prefix ps xs)"

definition is_sep :: "char \<Rightarrow> bool" where
  "is_sep c = (c = CHR '':'' \<or> is_ws c)"

fun try_sep :: "nat \<Rightarrow> string \<Rightarrow> string option" where
  "try_sep 0 rest = None"
| "try_sep (Suc k) rest =
     (let cap = takeWhile (\<lambda>c. c \<noteq> CHR 0x0A) (drop (Suc k) rest)
      in if cap \<noteq> [] then Some cap else try_sep k rest)"

definition sep_capture :: "string \<Rightarrow> string option" where
  "sep_capture rest = try_sep (length (takeWhile is_sep rest)) rest"

fun match_label :: "string \<Rightarrow> string \<Rightarrow> string option" where
  "match_label lbl [] = None"
| "match_label lbl (x # xs) =
     (if ci_prefix lbl (x # xs) then
        (let rest = drop (length lbl) (x # xs);
             with_s = (case rest of
                         [] \<Rightarrow> None
                       | c # cs \<Rightarrow> if to_upper c = CHR ''S'' then sep_capture cs else None)
         in case with_s of
              Some cap \<Rightarrow> Some cap
            | None \<Rightarrow>
                (case sep_capture rest of
                   Some cap \<Rightarrow> Some cap
                 | None \<Rightarrow> match_label lbl xs))
      else match_label lbl xs)"

text \<open>\<^verbatim>\<open>(caseText.match(...) || [])[1]?.trim()\<close> for the two labels.\<close>

definition extract_caseInfo :: "string \<Rightarrow> case_info" where
  "extract_caseInfo caseText =
     \<lparr>plaintiff = map_option trim (match_label ''Plaintiff'' caseText),
      defendant = map_option trim (match_label ''Defendant'' caseText)\<rparr>"

section \<open>The browser, the file system and the status store\<close>

text \<open>
  Everything outside the program is a parameter: what each call on the browser, the file
  system and the page answers. A call either throws (rejects) with an error whose message
  is given, or answers. \<open>Some m\<close> in an \<open>_err\<close> field and \<open>Inl m\<close> in a \<open>_res\<close> field are
  the thrown error's message. Thrown values are \<^verbatim>\<open>Error\<close> objects, as the browser driver
  and Node throw them.

  \<^item> \<open>pool\<close>: the configuration was found, so the status store is written.
  \<^item> \<open>mkdir_err\<close>: \<^verbatim>\<open>fs.mkdirSync(caseDir, {recursive: true})\<close>.
  \<^item> \<open>countyValue_res\<close>: the in-page lookup of the county option, \<open>None\<close> for \<^verbatim>\<open>null\<close>.
  \<^item> \<open>hcaptcha_res\<close>, \<open>caseLink_res\<close>: whether \<^verbatim>\<open>page.$\<close> found an element.
  \<^item> \<open>sitekey_res\<close>, \<open>onclick_res\<close>, \<open>efiled_res\<close>: what \<^verbatim>\<open>page.$eval\<close> read of the attribute,
    \<open>None\<close> for \<^verbatim>\<open>null\<close>.
  \<^item> \<open>close_err n\<close>: the \<open>n\<close>-th call of \<^verbatim>\<open>page.close()\<close>, counted from 0.
  \<^item> \<open>fetch_res i url\<close>: the in-page fetch of the \<open>i\<close>-th listed document, decoded;
    \<open>Inr None\<close> is a data URL without a comma, whose payload is \<^verbatim>\<open>undefined\<close>.
  \<^item> \<open>write_err i\<close>: \<^verbatim>\<open>fs.writeFileSync\<close> for the \<open>i\<close>-th listed document.
\<close>

record env =
  pool :: bool
  mkdir_err :: "string option"
  connect_err :: "string option"
  newPage_err :: "string option"
  goto_err :: "string \<Rightarrow> string option"
  waitForSelector_err :: "string option"
  type_err :: "string option"
  countyValue_res :: "string + string option"
  select_err :: "string option"
  click_err :: "string option"
  hcaptcha_res :: "string + bool"
  sitekey_res :: "string + string option"
  close_err :: "nat \<Rightarrow> string option"
  caseLink_res :: "string + bool"
  onclick_res :: "string + string option"
  caseText_res :: "string + string"
  efiled_res :: "string + string option"
  rows_res :: "string + row list"
  fetch_res :: "nat \<Rightarrow> string \<Rightarrow> string + string option"
  write_err :: "nat \<Rightarrow> string option"

text \<open>The calls the program makes, in the order it makes them.\<close>

datatype event =
    Mkdir string
  | Dashboard string string string
  | Connect
  | NewPage
  | Goto string
  | WaitForSelector string
  | TypeText string string
  | Evaluate string
  | Select string
  | Click string
  | WaitForNavigation
  | Query string
  | EvalAttr string string
  | Fetch string
  | WriteFile string
  | ClosePage

text \<open>
  The state the function threads: the result object, whether the variable \<^verbatim>\<open>page\<close> holds
  a page, the number of \<^verbatim>\<open>page.close()\<close> calls made, the calls made so far, the directories
  whose existence \<^verbatim>\<open>mkdirSync\<close> has ensured and the files written.
\<close>

record state =
  result :: scrape_result
  page :: bool
  closes :: nat
  trace :: "event list"
  dirs :: "string list"
  files :: "(string \<times> string) list"

definition log :: "event \<Rightarrow> state \<Rightarrow> state" where
  "log e s = s\<lparr>trace := trace s @ [e]\<rparr>"

text \<open>
  \<^verbatim>\<open>updateDashboard(indexNumber, step, status)\<close>: nothing without a pool; otherwise one
  write keyed by the agent identifier, whose own failure is swallowed.
\<close>

definition updateDashboard :: "env \<Rightarrow> string \<Rightarrow> string \<Rightarrow> string \<Rightarrow> state \<Rightarrow> state" where
  "updateDashboard e idx step status s =
     (if pool e then log (Dashboard (agentId_of idx) step status) s else s)"

text \<open>One call of \<^verbatim>\<open>page.close()\<close>: the error it throws, if any, and the state after.\<close>

definition page_close :: "env \<Rightarrow> state \<Rightarrow> string option \<times> state" where
  "page_close e s = (close_err e (closes s), (log ClosePage s)\<lparr>closes := Suc (closes s)\<rparr>)"

text \<open>
  How the body of the \<^verbatim>\<open>try\<close> block ends: an early \<^verbatim>\<open>return result\<close>, its last statement,
  or a thrown error.
\<close>

datatype ending = Returned | Completed | Thrown string

text \<open>
  The four early exits share their shape: set the error, report, close the page, return.
  The variable \<^verbatim>\<open>page\<close> still holds the page afterwards.
\<close>

definition early_return :: "env \<Rightarrow> string \<Rightarrow> string \<Rightarrow> string \<Rightarrow> state \<Rightarrow> ending \<times> state" where
  "early_return e idx err step s =
     (let s1 = s\<lparr>result := (result s)\<lparr>error := Some err\<rparr>\<rparr>;
          s2 = updateDashboard e idx step ''failed'' s1
      in case page_close e s2 of
           (Some m, s3) \<Rightarrow> (Thrown m, s3)
         | (None, s3) \<Rightarrow> (Returned, s3))"

section \<open>The pipeline\<close>

text \<open>An awaited call: the error it throws ends the \<^verbatim>\<open>try\<close> body, otherwise the body goes on.\<close>

definition step :: "string option \<Rightarrow> state \<Rightarrow> (state \<Rightarrow> ending \<times> state) \<Rightarrow> ending \<times> state" where
  "step err s k = (case err of Some m \<Rightarrow> (Thrown m, s) | None \<Rightarrow> k s)"

definition hcaptcha_selector :: string where
  "hcaptcha_selector = ''[data-sitekey], .h-captcha, iframe[src*='' @ [dq] @ ''hcaptcha'' @ [dq] @ '']''"

definition caseLink_selector :: string where
  "caseLink_selector = ''a[onclick*='' @ [dq] @ ''openCaseDetailsWindow'' @ [dq] @ '']''"

definition efiled_selector :: string where
  "efiled_selector = ''input[onclick*='' @ [dq] @ ''openDocumentWindow'' @ [dq] @ '']''"

definition county_selector :: string where
  "county_selector = ''select[name='' @ [dq] @ ''cboCourt'' @ [dq] @ '']''"

text \<open>The messages of the two \<^verbatim>\<open>TypeError\<close>s the parsing expressions can throw.\<close>

definition null_match_msg :: string where
  "null_match_msg = ''Cannot read properties of null (reading '' @ [sq] @ ''match'' @ [sq] @ '')''"

definition null_index_msg :: string where
  "null_index_msg = ''Cannot read properties of null (reading '' @ [sq] @ ''1'' @ [sq] @ '')''"

subsection \<open>Document Fetcher\<close>

text \<open>
  The body of the \<^verbatim>\<open>for\<close> loop, for the \<open>i\<close>-th listed document: the file name comes
  from the type alone; the document is fetched in the page, written, entered in \<open>pdfs\<close>
  and counted. Whatever the inner \<^verbatim>\<open>try\<close> throws is dropped. The body gives the new count
  of written documents and the new state.
\<close>

definition filename_of :: "doc_type \<Rightarrow> string" where
  "filename_of t = (if t = Judgment then ''judgment.pdf'' else ''notice.pdf'')"

definition download_one ::
  "env \<Rightarrow> string \<Rightarrow> string \<Rightarrow> nat \<Rightarrow> document_record \<Rightarrow> nat \<Rightarrow> nat \<Rightarrow> state \<Rightarrow> nat \<times> state" where
  "download_one e idx cdir ndocs doc i downloaded s =
     (let filename = filename_of (dtype doc);
          filepath = path_join cdir filename;
          s1 = log (Fetch (url doc)) s
      in case fetch_res e i (url doc) of
           Inl m \<Rightarrow> (downloaded, s1)
         | Inr None \<Rightarrow> (downloaded, s1)
         | Inr (Some content) \<Rightarrow>
             (let s2 = log (WriteFile filepath) s1
              in case write_err e i of
                   Some m \<Rightarrow> (downloaded, s2)
                 | None \<Rightarrow>
                     (let s3 = s2\<lparr>files := AList.update filepath content (files s2),
                                  result := (result s2)\<lparr>pdfs :=
                                    AList.update (dtype doc) filepath (pdfs (result s2))\<rparr>\<rparr>;
                          s4 = updateDashboard e idx
                                 (''Getting PDFs ('' @ dec (Suc downloaded) @ ''/'' @ dec ndocs @ '')...'')
                                 ''searching'' s3
                      in (Suc downloaded, s4))))"

text \<open>The loop: the documents in order, one after the other, whatever happened to the one before.\<close>

fun download ::
  "env \<Rightarrow> string \<Rightarrow> string \<Rightarrow> nat \<Rightarrow> document_record list \<Rightarrow> nat \<Rightarrow> nat \<Rightarrow> state \<Rightarrow> state" where
  "download e idx cdir ndocs [] i downloaded s = s"
| "download e idx cdir ndocs (doc # rest) i downloaded s =
     (case download_one e idx cdir ndocs doc i downloaded s of
        (downloaded', s') \<Rightarrow> download e idx cdir ndocs rest (Suc i) downloaded' s')"

text \<open>
  From \<^verbatim>\<open>result.documents = docs\<close> to the end of the \<^verbatim>\<open>try\<close> body: the downloads, the
  close of the tab, \<^verbatim>\<open>page = null\<close>, and \<^verbatim>\<open>success\<close> from the keys of \<open>pdfs\<close>.
\<close>

definition fetch_documents ::
  "env \<Rightarrow> string \<Rightarrow> string \<Rightarrow> document_record list \<Rightarrow> state \<Rightarrow> ending \<times> state" where
  "fetch_documents e idx cdir docs s =
     (let s1 = s\<lparr>result := (result s)\<lparr>documents := docs\<rparr>\<rparr>;
          s2 = updateDashboard e idx (''Getting PDFs (0/'' @ dec (length docs) @ '')...'') ''searching'' s1;
          s3 = download e idx cdir (length docs) docs 0 0 s2
      in case page_close e s3 of
           (Some m, s4) \<Rightarrow> (Thrown m, s4)
         | (None, s4) \<Rightarrow>
             (let s5 = s4\<lparr>page := False\<rparr>;
                  s6 = s5\<lparr>result := (result s5)\<lparr>success := (pdfs (result s5) \<noteq> [])\<rparr>\<rparr>;
                  s7 = (if success (result s6)
                        then updateDashboard e idx ''PDFs downloaded, ready for scan'' ''searching'' s6
                        else s6)
              in (Completed, s7)))"

subsection \<open>Document Lister\<close>

definition list_documents ::
  "env \<Rightarrow> string \<Rightarrow> string \<Rightarrow> string \<Rightarrow> state \<Rightarrow> ending \<times> state" where
  "list_documents e idx cdir efiledOnclick s =
     (case handler_params ''openDocumentWindow'' efiledOnclick of
        None \<Rightarrow> (Thrown null_index_msg, s)
      | Some efiledParams \<Rightarrow>
          step (goto_err e (efiledUrl efiledParams)) (log (Goto (efiledUrl efiledParams)) s) (\<lambda>s1.
            (let s2 = log (Evaluate ''table tr'') s1
             in case rows_res e of
                  Inl m \<Rightarrow> (Thrown m, s2)
                | Inr rows \<Rightarrow>
                    (let docs = scan_rows rows
                     in if docs = [] then
                          early_return e idx ''No target documents found'' ''No Judgment/Notice found'' s2
                        else fetch_documents e idx cdir docs s2))))"

subsection \<open>Case Info Extractor\<close>

text \<open>
  The failure of the \<^verbatim>\<open>$eval\<close> of the documents button is caught and read as \<^verbatim>\<open>null\<close>;
  \<^verbatim>\<open>null\<close> and the empty attribute are falsy.
\<close>

definition case_details ::
  "env \<Rightarrow> string \<Rightarrow> string \<Rightarrow> string list \<Rightarrow> state \<Rightarrow> ending \<times> state" where
  "case_details e idx cdir params s =
     step (goto_err e (caseUrl params)) (log (Goto (caseUrl params)) s) (\<lambda>s1.
       (let s2 = log (Evaluate ''document.body.innerText'') s1
        in case caseText_res e of
             Inl m \<Rightarrow> (Thrown m, s2)
           | Inr caseText \<Rightarrow>
               (let s3 = s2\<lparr>result := (result s2)\<lparr>caseInfo := Some (extract_caseInfo caseText)\<rparr>\<rparr>;
                    s4 = updateDashboard e idx ''Getting eFiled documents...'' ''searching'' s3;
                    s5 = log (EvalAttr efiled_selector ''onclick'') s4;
                    efiledOnclick = (case efiled_res e of Inl m \<Rightarrow> None | Inr v \<Rightarrow> v)
                in case efiledOnclick of
                     None \<Rightarrow> early_return e idx ''No eFiled docs button'' ''No eFiled documents found'' s5
                   | Some h \<Rightarrow>
                       if h = [] then
                         early_return e idx ''No eFiled docs button'' ''No eFiled documents found'' s5
                       else list_documents e idx cdir h s5)))"

subsection \<open>Case Locator\<close>

text \<open>The classification of the search-result page, from the check for the challenge on.\<close>

definition locate_case :: "env \<Rightarrow> string \<Rightarrow> string \<Rightarrow> state \<Rightarrow> ending \<times> state" where
  "locate_case e idx cdir s =
     (let s1 = log (Query hcaptcha_selector) s
      in case hcaptcha_res e of
           Inl m \<Rightarrow> (Thrown m, s1)
         | Inr True \<Rightarrow>
             (let s2 = s1\<lparr>result := (result s1)\<lparr>hcaptchaDetected := True\<rparr>\<rparr>;
                  s3 = log (EvalAttr ''[data-sitekey]'' ''data-sitekey'') s2;
                  sitekey = (case sitekey_res e of Inl m \<Rightarrow> None | Inr v \<Rightarrow> v);
                  s4 = s3\<lparr>result := (result s3)\<lparr>hcaptchaSitekey := sitekey\<rparr>\<rparr>
              in early_return e idx ''hCaptcha detected'' ''hCaptcha detected - needs solving'' s4)
         | Inr False \<Rightarrow>
             (let s2 = log (Query caseLink_selector) s1
              in case caseLink_res e of
                   Inl m \<Rightarrow> (Thrown m, s2)
                 | Inr False \<Rightarrow> early_return e idx ''No case found'' ''No case found'' s2
                 | Inr True \<Rightarrow>
                     (let s3 = updateDashboard e idx ''Found case, navigating...'' ''searching'' s2;
                          s4 = log (EvalAttr caseLink_selector ''onclick'') s3
                      in case onclick_res e of
                           Inl m \<Rightarrow> (Thrown m, s4)
                         | Inr None \<Rightarrow> (Thrown null_match_msg, s4)
                         | Inr (Some onclick) \<Rightarrow>
                             (case handler_params ''openCaseDetailsWindow'' onclick of
                                None \<Rightarrow> (Thrown null_index_msg, s4)
                              | Some params \<Rightarrow> case_details e idx cdir params s4))))"

text \<open>
  Filling and submitting the search form. The county is selected only when the lookup gave
  a truthy value. The click and the wait for the navigation start together; the failure of
  the wait is dropped.
\<close>

definition submit_search :: "env \<Rightarrow> string \<Rightarrow> string \<Rightarrow> state \<Rightarrow> ending \<times> state" where
  "submit_search e idx cdir s =
     step (goto_err e SEARCH_URL) (log (Goto SEARCH_URL) s) (\<lambda>s1.
     step (waitForSelector_err e) (log (WaitForSelector ''#txtIndex'') s1) (\<lambda>s2.
     step (type_err e) (log (TypeText ''#txtIndex'' idx) s2) (\<lambda>s3.
       (let s4 = log (Evaluate county_selector) s3;
            submit = (\<lambda>s5. step (click_err e) (log WaitForNavigation (log (Click ''#btnFindCase'') s5))
                               (locate_case e idx cdir))
        in case countyValue_res e of
             Inl m \<Rightarrow> (Thrown m, s4)
           | Inr None \<Rightarrow> submit s4
           | Inr (Some countyValue) \<Rightarrow>
               if countyValue = [] then submit s4
               else step (select_err e) (log (Select countyValue) s4) submit))))"

subsection \<open>Session Acquirer and the whole function\<close>

text \<open>The body of the \<^verbatim>\<open>try\<close> block. \<^verbatim>\<open>page\<close> holds a page once \<^verbatim>\<open>newPage\<close> has answered.\<close>

definition try_body :: "env \<Rightarrow> string \<Rightarrow> string \<Rightarrow> state \<Rightarrow> ending \<times> state" where
  "try_body e idx cdir s =
     (let s1 = updateDashboard e idx ''Connecting to browser...'' ''searching'' s
      in step (connect_err e) (log Connect s1) (\<lambda>s2.
         step (newPage_err e) (log NewPage s2) (\<lambda>s3.
           submit_search e idx cdir
             (updateDashboard e idx ''Searching for case...'' ''searching'' (s3\<lparr>page := True\<rparr>)))))"

text \<open>
  \<^verbatim>\<open>catch (err)\<close>: the message goes into \<^verbatim>\<open>result.error\<close> and is reported.
  \<^verbatim>\<open>finally\<close>: if \<^verbatim>\<open>page\<close> holds a page it is closed, and what that close throws is dropped.
\<close>

definition catch_block :: "env \<Rightarrow> string \<Rightarrow> string \<Rightarrow> state \<Rightarrow> state" where
  "catch_block e idx m s =
     updateDashboard e idx (''Error: '' @ m) ''failed'' (s\<lparr>result := (result s)\<lparr>error := Some m\<rparr>\<rparr>)"

definition finally_block :: "env \<Rightarrow> state \<Rightarrow> state" where
  "finally_block e s = (if page s then snd (page_close e s) else s)"

text \<open>
  \<^verbatim>\<open>fs.mkdirSync(caseDir, {recursive: true})\<close>: Node refuses a path with a null byte before
  it asks the file system; an existing directory is not an error.
\<close>

definition null_byte_msg :: string where
  "null_byte_msg = ''The argument '' @ [sq] @ ''path'' @ [sq]
     @ '' must be a string, Uint8Array, or URL without null bytes.''"

definition mkdirSync :: "env \<Rightarrow> string \<Rightarrow> string option" where
  "mkdirSync e p = (if CHR 0x00 \<in> set p then Some null_byte_msg else mkdir_err e)"

text \<open>
  What a call of \<^verbatim>\<open>scrapeCase\<close> leaves: the value it returns (\<open>Inl\<close> when it throws instead),
  the calls it made, the directories it ensured and the files it wrote.
\<close>

record run =
  returned :: "string + scrape_result"
  calls :: "event list"
  dirs_made :: "string list"
  files_written :: "(string \<times> string) list"

definition initial_result :: "string \<Rightarrow> string \<Rightarrow> string \<Rightarrow> scrape_result" where
  "initial_result idx cty cdir =
     \<lparr>success = False, indexNumber = idx, county = cty, caseDir = cdir, pdfs = [],
      error = None, hcaptchaDetected = False, hcaptchaSitekey = None, caseInfo = None,
      documents = []\<rparr>"

definition initial_state :: "string \<Rightarrow> string \<Rightarrow> string \<Rightarrow> state" where
  "initial_state idx cty cdir =
     \<lparr>result = initial_result idx cty cdir, page = False, closes = 0,
      trace = [Mkdir cdir], dirs = [cdir], files = []\<rparr>"

definition finish :: "state \<Rightarrow> run" where
  "finish s = \<lparr>returned = Inr (result s), calls = trace s, dirs_made = dirs s,
               files_written = files s\<rparr>"

definition scrapeCase :: "env \<Rightarrow> string \<Rightarrow> string \<Rightarrow> run" where
  "scrapeCase e idx cty =
     (let cdir = caseDir_of idx
      in case mkdirSync e cdir of
           Some m \<Rightarrow> \<lparr>returned = Inl m, calls = [Mkdir cdir], dirs_made = [], files_written = []\<rparr>
         | None \<Rightarrow>
             (case try_body e idx cdir (initial_state idx cty cdir) of
                (Thrown m, s) \<Rightarrow> finish (finally_block e (catch_block e idx m s))
              | (Returned, s) \<Rightarrow> finish (finally_block e s)
              | (Completed, s) \<Rightarrow> finish (finally_block e s)))"

section \<open>The command line\<close>

text \<open>
  What the process leaves when the file is run as the main module: its exit status, whether
  it printed the usage line, the result it printed, the run of \<^verbatim>\<open>scrapeCase\<close> if it made
  one, and the message of an error nothing handled. Node (version 15 and later; the
  repository asks for 18) ends the process with status 1 on a rejection that nothing handles.
\<close>

record process_end =
  exit_status :: nat
  usage_printed :: bool
  result_printed :: "scrape_result option"
  scrape_run :: "run option"
  unhandled :: "string option"

text \<open>\<^verbatim>\<open>const [indexNumber, county, jobId] = process.argv.slice(2)\<close>: a missing position is
  \<^verbatim>\<open>undefined\<close>; \<^verbatim>\<open>undefined\<close> and the empty string are falsy.\<close>

definition arg_at :: "string list \<Rightarrow> nat \<Rightarrow> string option" where
  "arg_at argv i = (if i < length argv then Some (argv ! i) else None)"

definition falsy :: "string option \<Rightarrow> bool" where
  "falsy a = (case a of None \<Rightarrow> True | Some v \<Rightarrow> v = [])"

text \<open>
  The names the module binds, visible in every function of the file. A callback sees these
  and its own parameters; neither Node nor the module wrapper binds a name \<^verbatim>\<open>r\<close>.
\<close>

definition module_scope :: "string list" where
  "module_scope =
     [''puppeteer'', ''path'', ''fs'', ''Pool'', ''CDP_URL'', ''SEARCH_URL'', ''DOWNLOAD_DIR'',
      ''pool'', ''updateDashboard'', ''scrapeCase'', ''cleanup'', ''indexNumber'', ''county'',
      ''jobId'', ''require'', ''module'', ''exports'', ''__filename'', ''__dirname'']"

text \<open>
  The expression \<^verbatim>\<open>r?.success ? 0 : 1\<close> in a callback with the given parameters, where \<open>res\<close>
  is the value the promise of \<^verbatim>\<open>scrapeCase\<close> resolved to. Optional chaining guards a
  \<^verbatim>\<open>null\<close> or \<^verbatim>\<open>undefined\<close> value, not a name that is not bound: reading one throws a
  \<^verbatim>\<open>ReferenceError\<close>.
\<close>

definition exit_expression :: "string list \<Rightarrow> scrape_result \<Rightarrow> string + nat" where
  "exit_expression callback_params res =
     (if ''r'' \<in> set (callback_params @ module_scope)
      then Inr (if success res then 0 else 1)
      else Inl ''r is not defined'')"

text \<open>
  The entry of \<^verbatim>\<open>scrape-case.js\<close>: the first callback \<^verbatim>\<open>r => {...}\<close> prints the result and
  returns \<^verbatim>\<open>cleanup()\<close>; the exit status is computed in a second callback, \<^verbatim>\<open>() => {...}\<close>,
  which has no parameter. The chain has no \<^verbatim>\<open>catch\<close>.
\<close>

definition main_entry :: "env \<Rightarrow> string list \<Rightarrow> process_end" where
  "main_entry e argv =
     (if falsy (arg_at argv 0) \<or> falsy (arg_at argv 1) then
        \<lparr>exit_status = 1, usage_printed = True, result_printed = None, scrape_run = None,
         unhandled = None\<rparr>
      else
        (let r = scrapeCase e (argv ! 0) (argv ! 1)
         in case returned r of
              Inl m \<Rightarrow>
                \<lparr>exit_status = 1, usage_printed = False, result_printed = None,
                 scrape_run = Some r, unhandled = Some m\<rparr>
            | Inr res \<Rightarrow>
                (case exit_expression [] res of
                   Inl m \<Rightarrow>
                     \<lparr>exit_status = 1, usage_printed = False, result_printed = Some res,
                      scrape_run = Some r, unhandled = Some m\<rparr>
                 | Inr code \<Rightarrow>
                     \<lparr>exit_status = code, usage_printed = False, result_printed = Some res,
                      scrape_run = Some r, unhandled = None\<rparr>)))"

text \<open>
  The entry of the earlier version of the file (\<^verbatim>\<open>part_001\<close>): one callback, \<^verbatim>\<open>r => {...}\<close>,
  prints the result and exits with \<^verbatim>\<open>r.success ? 0 : 1\<close>. Its \<^verbatim>\<open>scrapeCase\<close> has the control
  flow of the one above, with console lines where that one writes the status store.
\<close>

definition main_entry_part_001 :: "env \<Rightarrow> string list \<Rightarrow> process_end" where
  "main_entry_part_001 e argv =
     (if falsy (arg_at argv 0) \<or> falsy (arg_at argv 1) then
        \<lparr>exit_status = 1, usage_printed = True, result_printed = None, scrape_run = None,
         unhandled = None\<rparr>
      else
        (let r = scrapeCase (e\<lparr>pool := False\<rparr>) (argv ! 0) (argv ! 1)
         in case returned r of
              Inl m \<Rightarrow>
                \<lparr>exit_status = 1, usage_printed = False, result_printed = None,
                 scrape_run = Some r, unhandled = Some m\<rparr>
            | Inr res \<Rightarrow>
                (case exit_expression [''r''] res of
                   Inl m \<Rightarrow>
                     \<lparr>exit_status = 1, usage_printed = False, result_printed = Some res,
                      scrape_run = Some r, unhandled = Some m\<rparr>
                 | Inr code \<Rightarrow>
                     \<lparr>exit_status = code, usage_printed = False, result_printed = Some res,
                      scrape_run = Some r, unhandled = None\<rparr>)))"

section \<open>Sample pages and environments\<close>

definition handler_call :: "string \<Rightarrow> string list \<Rightarrow> string" where
  "handler_call fname args =
     fname @ ''('' @ join_with '','' (map (\<lambda>a. [sq] @ a @ [sq]) args) @ '')''"

definition sample_row :: "string \<Rightarrow> string \<Rightarrow> string \<Rightarrow> row" where
  "sample_row d nm u =
     [\<lparr>ctext = ''1'', clink = None\<rparr>,
      \<lparr>ctext = d, clink = None\<rparr>,
      \<lparr>ctext = nm, clink = Some \<lparr>ltext = nm, lonclick = Some (handler_call ''openPDF'' [u])\<rparr>\<rparr>]"

text \<open>
  The fixture of the specification's end-to-end scenario: one case link, a case page with
  both parties, a documents table with both target rows, every call answering.
\<close>

definition env_ok :: env where
  "env_ok =
     \<lparr>pool = False, mkdir_err = None, connect_err = None, newPage_err = None,
      goto_err = (\<lambda>u. None), waitForSelector_err = None, type_err = None,
      countyValue_res = Inr (Some ''47''), select_err = None, click_err = None,
      hcaptcha_res = Inr False, sitekey_res = Inl ''no element'', close_err = (\<lambda>n. None),
      caseLink_res = Inr True,
      onclick_res = Inr (Some (handler_call ''openCaseDetailsWindow''
                         [''a'', ''b'', ''Suffolk'', ''606529/2023'', ''c'', ''d'', ''e''])),
      caseText_res = Inr ''Plaintiff: BANK X\<newline>Defendant: JOHN DOE'',
      efiled_res = Inr (Some (handler_call ''openDocumentWindow'' [''w'', ''47'', ''606529/2023'', ''N'', ''9''])),
      rows_res = Inr [sample_row ''01/02/2024'' ''JUDGMENT OF FORECLOSURE AND SALE'' ''/j.pdf'',
                      sample_row ''03/04/2024'' ''NOTICE OF SALE'' ''/n.pdf''],
      fetch_res = (\<lambda>i u. Inr (Some (''%PDF '' @ u))), write_err = (\<lambda>i. None)\<rparr>"

text \<open>The search-result page shows the challenge.\<close>

definition env_challenge :: env where
  "env_challenge = env_ok\<lparr>hcaptcha_res := Inr True, sitekey_res := Inr (Some ''key-1'')\<rparr>"

text \<open>Both documents are written, then the close of the tab after the downloads throws.\<close>

definition env_close_throws :: env where
  "env_close_throws = env_ok\<lparr>close_err := (\<lambda>n. if n = 0 then Some ''Target closed'' else None)\<rparr>"


section \<open>The specification's readings\<close>












text \<open>
  What a part of the \<^verbatim>\<open>try\<close> body, started in \<open>s\<close>, leaves: the case directory and the
  ensured directories are untouched, the calls made before are still the first calls made,
  the keys of \<open>pdfs\<close> stay distinct, and \<^verbatim>\<open>success\<close> and \<^verbatim>\<open>error\<close> depend on how the
  part ended.
\<close>

definition stage_summary :: "state \<Rightarrow> ending \<times> state \<Rightarrow> bool" where
  "stage_summary s r =
     (case r of (en, s') \<Rightarrow>
        caseDir (result s') = caseDir (result s) \<and> dirs s' = dirs s
        \<and> prefix (trace s) (trace s')
        \<and> (distinct (map fst (pdfs (result s))) \<longrightarrow> distinct (map fst (pdfs (result s'))))
        \<and> (case en of
              Completed \<Rightarrow>
                success (result s') = (pdfs (result s') \<noteq> [])
                \<and> error (result s') = error (result s)
            | Returned \<Rightarrow> success (result s') = success (result s) \<and> error (result s') \<noteq> None
            | Thrown m \<Rightarrow> success (result s') = success (result s)))"




text \<open>The pages a run navigated to, in order.\<close>

definition navigations :: "event list \<Rightarrow> string list" where
  "navigations tr = List.map_filter (\<lambda>ev. case ev of Goto u \<Rightarrow> Some u | _ \<Rightarrow> None) tr"









text \<open>The results of the sample runs.\<close>

definition result_ok :: scrape_result where
  "result_ok =
     \<lparr>success = True, indexNumber = ''606529/2023'', county = ''Suffolk'',
      caseDir = ''/tmp/trex-pdfs/606529-2023'',
      pdfs = [(Judgment, ''/tmp/trex-pdfs/606529-2023/judgment.pdf''),
              (Notice, ''/tmp/trex-pdfs/606529-2023/notice.pdf'')],
      error = None, hcaptchaDetected = False, hcaptchaSitekey = None,
      caseInfo = Some \<lparr>plaintiff = Some ''BANK X'', defendant = Some ''JOHN DOE''\<rparr>,
      documents =
        [\<lparr>name = ''JUDGMENT OF FORECLOSURE AND SALE'', dtype = Judgment, url = ''/j.pdf'',
          date = ''01/02/2024''\<rparr>,
         \<lparr>name = ''NOTICE OF SALE'', dtype = Notice, url = ''/n.pdf'', date = ''03/04/2024''\<rparr>]\<rparr>"

definition result_close_throws :: scrape_result where
  "result_close_throws = result_ok\<lparr>success := False, error := Some ''Target closed''\<rparr>"

definition result_challenge :: scrape_result where
  "result_challenge =
     (initial_result ''606529/2023'' ''Suffolk'' ''/tmp/trex-pdfs/606529-2023'')
       \<lparr>error := Some ''hCaptcha detected'', hcaptchaDetected := True,
        hcaptchaSitekey := Some ''key-1''\<rparr>"


section \<open>Strings and paths: lemmas\<close>

lemma split_on_not_Nil: "split_on c xs \<noteq> []"
  by (induction xs) (auto split: list.splits)









lemma replace_first_none: "c \<notin> set a \<Longrightarrow> replace_first c d a = a"
  by (induction a) auto







lemma length_split_on: "length (split_on c xs) = Suc (count_list xs c)"
  by (induction xs) (auto split: list.splits simp: split_on_not_Nil)


lemma parse_params_length: "length (parse_params args) = Suc (count_list args CHR '','')"
  by (simp add: parse_params_def length_split_on)

section \<open>Inline-handler parameters\<close>





section \<open>The case directory and the agent identifier\<close>






section \<open>Rows of the documents table\<close>






lemma includes_JUDGMENT:
  "str_includes JUDGMENT_NAME ''JUDGMENT''" "\<not> str_includes NOTICE_NAME ''JUDGMENT''"
  by (simp_all add: JUDGMENT_NAME_def NOTICE_NAME_def)






section \<open>Calls, the status store and the tab\<close>

lemma log_simps [simp]:
  "result (log ev s) = result s" "page (log ev s) = page s" "closes (log ev s) = closes s"
  "dirs (log ev s) = dirs s" "files (log ev s) = files s" "trace (log ev s) = trace s @ [ev]"
  by (simp_all add: log_def)

lemma updateDashboard_simps [simp]:
  "result (updateDashboard e idx st status s) = result s"
  "page (updateDashboard e idx st status s) = page s"
  "closes (updateDashboard e idx st status s) = closes s"
  "dirs (updateDashboard e idx st status s) = dirs s"
  "files (updateDashboard e idx st status s) = files s"
  by (simp_all add: updateDashboard_def)

lemma updateDashboard_trace:
  "trace (updateDashboard e idx st status s) =
     trace s @ (if pool e then [Dashboard (agentId_of idx) st status] else [])"
  by (simp add: updateDashboard_def)

lemma updateDashboard_prefix [simp]: "prefix (trace s) (trace (updateDashboard e idx st status s))"
  by (simp add: updateDashboard_trace)

lemma prefix_snoc_trans: "prefix (xs @ [x]) ys \<Longrightarrow> prefix xs ys"
  by (metis append_prefixD)

lemma page_close_simps [simp]:
  "result (snd (page_close e s)) = result s" "dirs (snd (page_close e s)) = dirs s"
  "files (snd (page_close e s)) = files s" "closes (snd (page_close e s)) = Suc (closes s)"
  "page (snd (page_close e s)) = page s" "trace (snd (page_close e s)) = trace s @ [ClosePage]"
  "fst (page_close e s) = close_err e (closes s)"
  by (simp_all add: page_close_def)

section \<open>File paths and the download loop\<close>













lemma download_one_distinct:
  assumes "distinct (map fst (pdfs (result s)))" and "download_one e idx cdir n doc i dl s = (dl', s')"
  shows "distinct (map fst (pdfs (result s')))"
  using assms
  by (auto simp: download_one_def Let_def AList.distinct_update split: sum.splits option.splits)

lemma download_distinct:
  "distinct (map fst (pdfs (result s))) \<Longrightarrow>
   distinct (map fst (pdfs (result (download e idx cdir n docs i dl s))))"
proof (induction docs arbitrary: i dl s)
  case Nil
  then show ?case by simp
next
  case (Cons doc rest)
  obtain dl' s' where o: "download_one e idx cdir n doc i dl s = (dl', s')"
    by (cases "download_one e idx cdir n doc i dl s")
  show ?case
    using Cons.IH [OF download_one_distinct [OF Cons.prems o]] o by simp
qed



lemma download_one_frame:
  assumes "download_one e idx cdir n doc i dl s = (dl', s')"
  shows "success (result s') = success (result s)" "error (result s') = error (result s)"
    "caseDir (result s') = caseDir (result s)" "documents (result s') = documents (result s)"
    "dirs s' = dirs s" "page s' = page s" "closes s' = closes s" "prefix (trace s) (trace s')"
  using assms
  by (auto simp: download_one_def Let_def updateDashboard_trace split: sum.splits option.splits)

lemma download_frame:
  "success (result (download e idx cdir n docs i dl s)) = success (result s)
   \<and> error (result (download e idx cdir n docs i dl s)) = error (result s)
   \<and> caseDir (result (download e idx cdir n docs i dl s)) = caseDir (result s)
   \<and> documents (result (download e idx cdir n docs i dl s)) = documents (result s)
   \<and> dirs (download e idx cdir n docs i dl s) = dirs s
   \<and> page (download e idx cdir n docs i dl s) = page s
   \<and> closes (download e idx cdir n docs i dl s) = closes s
   \<and> prefix (trace s) (trace (download e idx cdir n docs i dl s))"
proof (induction docs arbitrary: i dl s)
  case Nil
  then show ?case by simp
next
  case (Cons doc rest)
  obtain dl' s' where o: "download_one e idx cdir n doc i dl s = (dl', s')"
    by (cases "download_one e idx cdir n doc i dl s")
  show ?case
    using Cons [of "Suc i" dl' s'] download_one_frame [OF o] o
    by (auto dest: prefix_order.trans)
qed

section \<open>The pipeline: what every part leaves\<close>

lemma stage_summary_thrown [simp]: "stage_summary s (Thrown m, s)"
  by (simp add: stage_summary_def)

lemma stage_summary_from:
  assumes "stage_summary s1 r"
    and "caseDir (result s1) = caseDir (result s)" and "dirs s1 = dirs s"
    and "prefix (trace s) (trace s1)"
    and "success (result s1) = success (result s)" and "error (result s1) = error (result s)"
    and "pdfs (result s1) = pdfs (result s)"
  shows "stage_summary s r"
  using assms by (cases r) (auto simp: stage_summary_def split: ending.splits dest: prefix_order.trans)

lemma stage_summary_step:
  assumes "\<And>s1. stage_summary s1 (k s1)"
  shows "stage_summary s (step err s k)"
  using assms by (cases err) (simp_all add: step_def)

lemma stage_summary_log: "stage_summary (log ev s) r \<Longrightarrow> stage_summary s r"
  by (erule stage_summary_from) simp_all

lemma stage_summary_dashboard:
  "stage_summary (updateDashboard e idx st status s) r \<Longrightarrow> stage_summary s r"
  by (erule stage_summary_from) simp_all

lemma early_return_summary: "stage_summary s (early_return e idx err st s)"
  by (cases "page_close e (updateDashboard e idx st ''failed'' (s\<lparr>result := (result s)\<lparr>error := Some err\<rparr>\<rparr>))")
     (auto simp: early_return_def Let_def stage_summary_def page_close_def updateDashboard_trace
           split: option.splits)

lemma fetch_documents_summary: "stage_summary s (fetch_documents e idx cdir docs s)"
proof -
  let ?s2 = "updateDashboard e idx (''Getting PDFs (0/'' @ dec (length docs) @ '')...'') ''searching''
               (s\<lparr>result := (result s)\<lparr>documents := docs\<rparr>\<rparr>)"
  let ?s3 = "download e idx cdir (length docs) docs 0 0 ?s2"
  have f: "success (result ?s3) = success (result s)" "error (result ?s3) = error (result s)"
    "caseDir (result ?s3) = caseDir (result s)" "dirs ?s3 = dirs s" "prefix (trace s) (trace ?s3)"
    using download_frame [of e idx cdir "length docs" docs 0 0 ?s2]
    by (auto simp: updateDashboard_trace dest: append_prefixD)
  have d: "distinct (map fst (pdfs (result s))) \<longrightarrow> distinct (map fst (pdfs (result ?s3)))"
    using download_distinct [of ?s2 e idx cdir "length docs" docs 0 0] by simp
  show ?thesis
    using f d
    by (cases "close_err e (closes ?s3)")
       (auto simp: fetch_documents_def Let_def stage_summary_def page_close_def updateDashboard_trace
             dest: prefix_order.trans)
qed

lemma stage_summary_thrown_after [simp]:
  "caseDir (result s') = caseDir (result s) \<Longrightarrow> dirs s' = dirs s \<Longrightarrow> prefix (trace s) (trace s')
   \<Longrightarrow> success (result s') = success (result s) \<Longrightarrow> pdfs (result s') = pdfs (result s)
   \<Longrightarrow> stage_summary s (Thrown m, s')"
  by (simp add: stage_summary_def)

lemma list_documents_summary: "stage_summary s (list_documents e idx cdir h s)"
proof (cases "handler_params ''openDocumentWindow'' h")
  case None
  then show ?thesis by (simp add: list_documents_def)
next
  case (Some ps)
  let ?s1 = "log (Goto (efiledUrl ps)) s"
  let ?s2 = "log (Evaluate ''table tr'') ?s1"
  show ?thesis
  proof (cases "goto_err e (efiledUrl ps)")
    case (Some m)
    then show ?thesis using \<open>handler_params ''openDocumentWindow'' h = Some ps\<close>
      by (simp add: list_documents_def step_def)
  next
    case None
    show ?thesis
    proof (cases "rows_res e")
      case (Inl m)
      then show ?thesis using None \<open>handler_params ''openDocumentWindow'' h = Some ps\<close>
        by (simp add: list_documents_def step_def)
    next
      case (Inr rows)
      have "stage_summary s (early_return e idx ''No target documents found'' ''No Judgment/Notice found'' ?s2)"
        by (rule stage_summary_from [OF early_return_summary]) simp_all
      moreover have "stage_summary s (fetch_documents e idx cdir (scan_rows rows) ?s2)"
        by (rule stage_summary_from [OF fetch_documents_summary]) simp_all
      ultimately show ?thesis
        using Inr None \<open>handler_params ''openDocumentWindow'' h = Some ps\<close>
        by (simp add: list_documents_def step_def Let_def)
    qed
  qed
qed


lemma early_return_summary_from [simp]:
  "caseDir (result s') = caseDir (result s) \<Longrightarrow> dirs s' = dirs s \<Longrightarrow> prefix (trace s) (trace s')
   \<Longrightarrow> success (result s') = success (result s) \<Longrightarrow> error (result s') = error (result s)
   \<Longrightarrow> pdfs (result s') = pdfs (result s)
   \<Longrightarrow> stage_summary s (early_return e idx a b s')"
  by (rule stage_summary_from [OF early_return_summary])

lemma list_documents_summary_from [simp]:
  "caseDir (result s') = caseDir (result s) \<Longrightarrow> dirs s' = dirs s \<Longrightarrow> prefix (trace s) (trace s')
   \<Longrightarrow> success (result s') = success (result s) \<Longrightarrow> error (result s') = error (result s)
   \<Longrightarrow> pdfs (result s') = pdfs (result s)
   \<Longrightarrow> stage_summary s (list_documents e idx cdir h s')"
  by (rule stage_summary_from [OF list_documents_summary])

lemma case_details_summary: "stage_summary s (case_details e idx cdir params s)"
  by (simp add: case_details_def step_def Let_def updateDashboard_trace
           split: option.splits sum.splits)

lemma case_details_summary_from [simp]:
  "caseDir (result s') = caseDir (result s) \<Longrightarrow> dirs s' = dirs s \<Longrightarrow> prefix (trace s) (trace s')
   \<Longrightarrow> success (result s') = success (result s) \<Longrightarrow> error (result s') = error (result s)
   \<Longrightarrow> pdfs (result s') = pdfs (result s)
   \<Longrightarrow> stage_summary s (case_details e idx cdir params s')"
  by (rule stage_summary_from [OF case_details_summary])

lemma locate_case_summary: "stage_summary s (locate_case e idx cdir s)"
  by (simp add: locate_case_def step_def Let_def updateDashboard_trace
           split: option.splits sum.splits bool.splits)

lemma locate_case_summary_from [simp]:
  "caseDir (result s') = caseDir (result s) \<Longrightarrow> dirs s' = dirs s \<Longrightarrow> prefix (trace s) (trace s')
   \<Longrightarrow> success (result s') = success (result s) \<Longrightarrow> error (result s') = error (result s)
   \<Longrightarrow> pdfs (result s') = pdfs (result s)
   \<Longrightarrow> stage_summary s (locate_case e idx cdir s')"
  by (rule stage_summary_from [OF locate_case_summary])

lemma submit_search_summary: "stage_summary s (submit_search e idx cdir s)"
  by (simp add: submit_search_def step_def Let_def updateDashboard_trace
           split: option.splits sum.splits)

lemma submit_search_summary_from [simp]:
  "caseDir (result s') = caseDir (result s) \<Longrightarrow> dirs s' = dirs s \<Longrightarrow> prefix (trace s) (trace s')
   \<Longrightarrow> success (result s') = success (result s) \<Longrightarrow> error (result s') = error (result s)
   \<Longrightarrow> pdfs (result s') = pdfs (result s)
   \<Longrightarrow> stage_summary s (submit_search e idx cdir s')"
  by (rule stage_summary_from [OF submit_search_summary])

lemma try_body_summary: "stage_summary s (try_body e idx cdir s)"
  by (simp add: try_body_def step_def Let_def updateDashboard_trace
           split: option.splits sum.splits)

lemma finally_block_simps [simp]:
  "result (finally_block e s) = result s" "dirs (finally_block e s) = dirs s"
  "files (finally_block e s) = files s"
  by (simp_all add: finally_block_def)


lemma catch_block_simps [simp]:
  "result (catch_block e idx m s) = (result s)\<lparr>error := Some m\<rparr>" "dirs (catch_block e idx m s) = dirs s"
  "files (catch_block e idx m s) = files s" "page (catch_block e idx m s) = page s"
  "closes (catch_block e idx m s) = closes s"
  by (simp_all add: catch_block_def)


lemma finish_simps [simp]:
  "returned (finish s) = Inr (result s)" "calls (finish s) = trace s" "dirs_made (finish s) = dirs s"
  "files_written (finish s) = files s"
  by (simp_all add: finish_def)

lemma initial_state_simps [simp]:
  "result (initial_state idx cty cdir) = initial_result idx cty cdir"
  "trace (initial_state idx cty cdir) = [Mkdir cdir]" "dirs (initial_state idx cty cdir) = [cdir]"
  "page (initial_state idx cty cdir) = False" "closes (initial_state idx cty cdir) = 0"
  "files (initial_state idx cty cdir) = []"
  by (simp_all add: initial_state_def)

lemma initial_result_simps [simp]:
  "success (initial_result idx cty cdir) = False" "error (initial_result idx cty cdir) = None"
  "caseDir (initial_result idx cty cdir) = cdir" "pdfs (initial_result idx cty cdir) = []"
  "documents (initial_result idx cty cdir) = []" "caseInfo (initial_result idx cty cdir) = None"
  "hcaptchaDetected (initial_result idx cty cdir) = False"
  "indexNumber (initial_result idx cty cdir) = idx" "county (initial_result idx cty cdir) = cty"
  by (simp_all add: initial_result_def)

section \<open>Navigation\<close>

lemma navigations_simps [simp]:
  "navigations [] = []"
  "navigations (Goto u # tr) = u # navigations tr"
  "navigations (Mkdir p # tr) = navigations tr"
  "navigations (Dashboard a b c # tr) = navigations tr"
  "navigations (Connect # tr) = navigations tr"
  "navigations (NewPage # tr) = navigations tr"
  "navigations (WaitForSelector x # tr) = navigations tr"
  "navigations (TypeText x y # tr) = navigations tr"
  "navigations (Evaluate x # tr) = navigations tr"
  "navigations (Select x # tr) = navigations tr"
  "navigations (Click x # tr) = navigations tr"
  "navigations (WaitForNavigation # tr) = navigations tr"
  "navigations (Query x # tr) = navigations tr"
  "navigations (EvalAttr x y # tr) = navigations tr"
  "navigations (Fetch x # tr) = navigations tr"
  "navigations (WriteFile x # tr) = navigations tr"
  "navigations (ClosePage # tr) = navigations tr"
  by (simp_all add: navigations_def List.map_filter_simps)

lemma navigations_append [simp]: "navigations (xs @ ys) = navigations xs @ navigations ys"
  by (simp add: navigations_def List.map_filter_def)

lemma updateDashboard_navigations [simp]:
  "navigations (trace (updateDashboard e idx st status s)) = navigations (trace s)"
  by (simp add: updateDashboard_trace)

lemma updateDashboard_Query [simp]:
  "Query x \<in> set (trace (updateDashboard e idx st status s)) = (Query x \<in> set (trace s))"
  by (simp add: updateDashboard_trace)

lemma locate_case_challenge:
  "hcaptcha_res e = Inr True \<Longrightarrow>
   locate_case e idx cdir s =
     early_return e idx ''hCaptcha detected'' ''hCaptcha detected - needs solving''
       ((log (EvalAttr ''[data-sitekey]'' ''data-sitekey'')
          ((log (Query hcaptcha_selector) s)\<lparr>result := (result s)\<lparr>hcaptchaDetected := True\<rparr>\<rparr>))
        \<lparr>result := (result s)\<lparr>hcaptchaDetected := True,
             hcaptchaSitekey := (case sitekey_res e of Inl m \<Rightarrow> None | Inr v \<Rightarrow> v)\<rparr>\<rparr>)"
  by (simp add: locate_case_def Let_def log_def)

section \<open>Sample runs\<close>

text \<open>
  A run on a sample environment is computed by unfolding the pipeline one call at a time:
  the congruence rules below make the simplifier decide what a call answers before it looks
  at what follows the call.
\<close>

lemma env_ok_sel:
  "pool env_ok = False" "mkdir_err env_ok = None" "connect_err env_ok = None" "newPage_err env_ok = None"
  "goto_err env_ok u = None" "waitForSelector_err env_ok = None" "type_err env_ok = None"
  "countyValue_res env_ok = Inr (Some ''47'')" "select_err env_ok = None" "click_err env_ok = None"
  "hcaptcha_res env_ok = Inr False" "sitekey_res env_ok = Inl ''no element''" "close_err env_ok n = None"
  "caseLink_res env_ok = Inr True"
  "onclick_res env_ok = Inr (Some (handler_call ''openCaseDetailsWindow''
                         [''a'', ''b'', ''Suffolk'', ''606529/2023'', ''c'', ''d'', ''e'']))"
  "caseText_res env_ok = Inr ''Plaintiff: BANK X\<newline>Defendant: JOHN DOE''"
  "efiled_res env_ok = Inr (Some (handler_call ''openDocumentWindow'' [''w'', ''47'', ''606529/2023'', ''N'', ''9'']))"
  "rows_res env_ok = Inr [sample_row ''01/02/2024'' ''JUDGMENT OF FORECLOSURE AND SALE'' ''/j.pdf'',
                      sample_row ''03/04/2024'' ''NOTICE OF SALE'' ''/n.pdf'']"
  "fetch_res env_ok i u = Inr (Some (''%PDF '' @ u))" "write_err env_ok i = None"
  by (simp_all add: env_ok_def)

lemma sample_values:
  "caseDir_of ''606529/2023'' = ''/tmp/trex-pdfs/606529-2023''"
  "handler_params ''openCaseDetailsWindow'' (handler_call ''openCaseDetailsWindow''
       [''a'', ''b'', ''Suffolk'', ''606529/2023'', ''c'', ''d'', ''e''])
     = Some [''a'', ''b'', ''Suffolk'', ''606529/2023'', ''c'', ''d'', ''e'']"
  "handler_params ''openDocumentWindow'' (handler_call ''openDocumentWindow''
       [''w'', ''47'', ''606529/2023'', ''N'', ''9''])
     = Some [''w'', ''47'', ''606529/2023'', ''N'', ''9'']"
  "extract_caseInfo ''Plaintiff: BANK X\<newline>Defendant: JOHN DOE''
     = \<lparr>plaintiff = Some ''BANK X'', defendant = Some ''JOHN DOE''\<rparr>"
  "path_join ''/tmp/trex-pdfs/606529-2023'' ''judgment.pdf'' = ''/tmp/trex-pdfs/606529-2023/judgment.pdf''"
  "path_join ''/tmp/trex-pdfs/606529-2023'' ''notice.pdf'' = ''/tmp/trex-pdfs/606529-2023/notice.pdf''"
  by code_simp+

lemma sample_rows:
  "row_document (sample_row ''01/02/2024'' ''JUDGMENT OF FORECLOSURE AND SALE'' ''/j.pdf'')
     = Some \<lparr>name = ''JUDGMENT OF FORECLOSURE AND SALE'', dtype = Judgment, url = ''/j.pdf'',
             date = ''01/02/2024''\<rparr>"
  "row_document (sample_row ''03/04/2024'' ''NOTICE OF SALE'' ''/n.pdf'')
     = Some \<lparr>name = ''NOTICE OF SALE'', dtype = Notice, url = ''/n.pdf'', date = ''03/04/2024''\<rparr>"
  "row_document (sample_row ''01/02/2024'' ''AFFIDAVIT'' ''/a.pdf'') = None"
  "row_document (sample_row ''01/02/2024'' ''JUDGMENT OF FORECLOSURE AND SALE'' ''/j1.pdf'')
     = Some \<lparr>name = ''JUDGMENT OF FORECLOSURE AND SALE'', dtype = Judgment, url = ''/j1.pdf'',
             date = ''01/02/2024''\<rparr>"
  "row_document (sample_row ''05/06/2024'' ''JUDGMENT OF FORECLOSURE AND SALE'' ''/j2.pdf'')
     = Some \<lparr>name = ''JUDGMENT OF FORECLOSURE AND SALE'', dtype = Judgment, url = ''/j2.pdf'',
             date = ''05/06/2024''\<rparr>"
  by code_simp+

lemma handler_call_not_Nil [simp]: "handler_call f args \<noteq> []"
  by (simp add: handler_call_def)

lemma step_weak_cong: "err = err' \<Longrightarrow> s = s' \<Longrightarrow> step err s k = step err' s' k"
  by simp

lemmas pipeline_defs = scrapeCase_def mkdirSync_def try_body_def step_def submit_search_def
  locate_case_def case_details_def list_documents_def fetch_documents_def download_one_def
  early_return_def page_close_def updateDashboard_def log_def Let_def finish_def finally_block_def
  catch_block_def initial_state_def initial_result_def filename_of_def

lemmas weak_congs = if_weak_cong let_weak_cong step_weak_cong option.case_cong_weak
  sum.case_cong_weak prod.case_cong_weak bool.case_cong_weak list.case_cong_weak
  ending.case_cong_weak

lemmas sample_facts = env_ok_sel sample_values sample_rows

lemma run_ok: "returned (scrapeCase env_ok ''606529/2023'' ''Suffolk'') = Inr result_ok"
  by (simp add: pipeline_defs sample_facts result_ok_def cong: weak_congs)

lemma run_close_throws:
  "returned (scrapeCase env_close_throws ''606529/2023'' ''Suffolk'') = Inr result_close_throws"
  by (simp add: pipeline_defs sample_facts env_close_throws_def result_close_throws_def result_ok_def
        cong: weak_congs)

lemma run_challenge:
  "returned (scrapeCase env_challenge ''606529/2023'' ''Suffolk'') = Inr result_challenge"
  "navigations (calls (scrapeCase env_challenge ''606529/2023'' ''Suffolk'')) = [SEARCH_URL]"
  "Query hcaptcha_selector \<in> set (calls (scrapeCase env_challenge ''606529/2023'' ''Suffolk''))"
  by (simp_all add: pipeline_defs sample_facts env_challenge_def result_challenge_def cong: weak_congs)








lemma env_ok_no_pool: "env_ok\<lparr>pool := False\<rparr> = env_ok"
  by (simp add: env_ok_def)

lemma main_entry_both_arguments:
  assumes "\<not> falsy (arg_at argv 0)" and "\<not> falsy (arg_at argv 1)"
  shows "exit_status (main_entry e argv) = 1"
  using assms
  by (simp add: main_entry_def Let_def exit_expression_def module_scope_def split: sum.splits)

lemma main_entry_part_001_both_arguments:
  assumes "\<not> falsy (arg_at argv 0)" and "\<not> falsy (arg_at argv 1)"
  shows "exit_status (main_entry_part_001 e argv) =
           (case returned (scrapeCase (e\<lparr>pool := False\<rparr>) (argv ! 0) (argv ! 1)) of
              Inl m \<Rightarrow> 1
            | Inr res \<Rightarrow> if success res then 0 else 1)"
  using assms
  by (simp add: main_entry_part_001_def Let_def exit_expression_def split: sum.splits)

lemma main_entry_missing_argument:
  assumes "falsy (arg_at argv 0) \<or> falsy (arg_at argv 1)"
  shows "exit_status (main_entry e argv) = 1 \<and> usage_printed (main_entry e argv)
       \<and> scrape_run (main_entry e argv) = None"
  using assms by (auto simp: main_entry_def)





section \<open>C1: success and the downloads\<close>

text \<open>
  C1, as amended. For every run of \<^verbatim>\<open>scrapeCase\<close> that returns a result, \<^verbatim>\<open>success\<close> is true
  exactly when \<open>pdfs\<close> has at least one entry and no error is recorded, that is, when the
  pipeline ran to its end; so it is never true with no download, and the number of
  documents found plays no part.
\<close>

theorem success_iff_pdfs_and_no_error:
  assumes "returned (scrapeCase e idx cty) = Inr res"
  shows "success res = (pdfs res \<noteq> [] \<and> error res = None)"
proof -
  let ?cdir = "caseDir_of idx"
  let ?s0 = "initial_state idx cty ?cdir"
  obtain en s where b: "try_body e idx ?cdir ?s0 = (en, s)"
    by (cases "try_body e idx ?cdir ?s0")
  have sm: "stage_summary ?s0 (en, s)"
    using try_body_summary [of ?s0 e idx ?cdir] b by simp
  from assms have mk: "mkdirSync e ?cdir = None"
    by (cases "mkdirSync e ?cdir") (simp_all add: scrapeCase_def Let_def)
  show ?thesis
    using assms mk b sm by (cases en) (auto simp: scrapeCase_def Let_def stage_summary_def)
qed

theorem success_iff_pdfs_and_no_error_witness:
  "returned (scrapeCase env_ok ''606529/2023'' ''Suffolk'') = Inr result_ok
   \<and> success result_ok \<and> pdfs result_ok \<noteq> [] \<and> error result_ok = None"
  using success_iff_pdfs_and_no_error [OF run_ok] run_ok
  by (simp add: result_ok_def)

text \<open>
  The claim as stated fails when the close of the tab after the downloads throws: both
  files are written and entered in \<open>pdfs\<close>, the error goes to the outer handler, and
  \<^verbatim>\<open>success\<close> is never computed.
\<close>

theorem success_with_downloads_counterexample:
  "returned (scrapeCase env_close_throws ''606529/2023'' ''Suffolk'') = Inr result_close_throws
   \<and> length (pdfs result_close_throws) = 2 \<and> success result_close_throws = False"
  using run_close_throws by (simp add: result_close_throws_def result_ok_def)

section \<open>C2: the challenge\<close>

text \<open>
  C2, as amended. When the search-result page is examined and a challenge marker is found
  there, the result has \<^verbatim>\<open>hcaptchaDetected\<close> true and \<^verbatim>\<open>success\<close> false, the only navigation
  of the run is the one to the search page, and \<open>documents\<close>, \<open>caseInfo\<close> and \<open>pdfs\<close> stay
  unpopulated; \<^verbatim>\<open>error\<close> is populated: it is \<^verbatim>\<open>hCaptcha detected\<close>, or the message of the
  close of the tab if that close throws.
\<close>

theorem challenge_short_circuit:
  assumes "returned (scrapeCase e idx cty) = Inr res"
    and "Query hcaptcha_selector \<in> set (calls (scrapeCase e idx cty))"
    and "hcaptcha_res e = Inr True"
  shows "hcaptchaDetected res \<and> \<not> success res
       \<and> navigations (calls (scrapeCase e idx cty)) = [SEARCH_URL]
       \<and> error res = Some (case close_err e 0 of None \<Rightarrow> ''hCaptcha detected'' | Some m \<Rightarrow> m)
       \<and> hcaptchaSitekey res = (case sitekey_res e of Inl m \<Rightarrow> None | Inr v \<Rightarrow> v)
       \<and> documents res = [] \<and> caseInfo res = None \<and> pdfs res = []"
  using assms
  by (auto simp: scrapeCase_def try_body_def submit_search_def step_def Let_def
        locate_case_challenge early_return_def page_close_def finally_block_def catch_block_def
        split: option.splits sum.splits if_splits)

theorem challenge_short_circuit_witness:
  "hcaptcha_res env_challenge = Inr True
   \<and> returned (scrapeCase env_challenge ''606529/2023'' ''Suffolk'') = Inr result_challenge
   \<and> navigations (calls (scrapeCase env_challenge ''606529/2023'' ''Suffolk'')) = [SEARCH_URL]
   \<and> documents result_challenge = [] \<and> caseInfo result_challenge = None
   \<and> hcaptchaSitekey result_challenge = Some ''key-1''"
proof -
  have h: "hcaptcha_res env_challenge = Inr True" by (simp add: env_challenge_def)
  have k: "sitekey_res env_challenge = Inr (Some ''key-1'')" by (simp add: env_challenge_def)
  from challenge_short_circuit [OF run_challenge(1) run_challenge(3) h] k h run_challenge(1)
  show ?thesis by simp
qed

text \<open>
  The claim as stated has \<^verbatim>\<open>error\<close> unpopulated on this path; the code sets it.
\<close>

theorem challenge_error_counterexample:
  "returned (scrapeCase env_challenge ''606529/2023'' ''Suffolk'') = Inr result_challenge
   \<and> hcaptchaDetected result_challenge
   \<and> error result_challenge = Some ''hCaptcha detected''"
  using run_challenge(1) by (simp add: result_challenge_def)

section \<open>C4: the exit status\<close>

text \<open>
  C4. With both arguments present, the entry of \<^verbatim>\<open>scrape-case.js\<close> ends with status 1 also
  when the result has \<^verbatim>\<open>success\<close> true: the exit status is computed in a callback where
  \<^verbatim>\<open>r\<close> is not bound, the reference throws, and nothing handles the rejection. The earlier
  version of the file exits with 0 on the same run.
\<close>

theorem exit_status_ignores_success:
  "returned (scrapeCase env_ok ''606529/2023'' ''Suffolk'') = Inr result_ok
   \<and> success result_ok
   \<and> exit_status (main_entry env_ok [''606529/2023'', ''Suffolk'']) = 1
   \<and> unhandled (main_entry env_ok [''606529/2023'', ''Suffolk'']) = Some ''r is not defined''
   \<and> exit_status (main_entry_part_001 env_ok [''606529/2023'', ''Suffolk'']) = 0"
proof -
  have a: "\<not> falsy (arg_at [''606529/2023'', ''Suffolk''] 0)" "\<not> falsy (arg_at [''606529/2023'', ''Suffolk''] 1)"
    by (simp_all add: falsy_def arg_at_def)
  have s: "success result_ok" by (simp add: result_ok_def)
  have u: "unhandled (main_entry env_ok [''606529/2023'', ''Suffolk'']) = Some ''r is not defined''"
    using a by (simp add: main_entry_def Let_def run_ok exit_expression_def module_scope_def)
  have p: "exit_status (main_entry_part_001 env_ok [''606529/2023'', ''Suffolk'']) = 0"
    using s by (simp add: main_entry_part_001_both_arguments [OF a] env_ok_no_pool run_ok)
  show ?thesis
    using run_ok s main_entry_both_arguments [OF a] u p by simp
qed

section \<open>C5: exceptions\<close>




section \<open>C6: closing the tab\<close>


section \<open>C7: one file per type\<close>




section \<open>C9: the case directory of a well-formed index number\<close>



end
